theory Spec2Isabelle
  imports Main
begin

section \<open>Data model\<close>

text \<open>
  The server keeps three SQLite tables (users, documents, permissions), one directory per
  document under \<^verbatim>\<open>document_storage/doc_<id>\<close> holding the file \<^verbatim>\<open>document.md\<close> and a
  git repository, and the in-memory map \<^verbatim>\<open>gitLocks\<close>. Identifiers are numbers; a role is
  one of the three strings the \<^verbatim>\<open>CHECK\<close> constraint of the permissions table admits.
\<close>

type_synonym user_id = nat
type_synonym doc_id = nat
type_synonym hash = nat

datatype role = Owner | Writer | Reader

record document =
  doc_name :: string
  fs_path :: string
  owner_id :: user_id

text \<open>
  Commit messages are kept symbolically: \<open>Revert_to m\<close> stands for the text
  \<^verbatim>\<open>Revert to: \<close> followed by the first 50 characters of the trimmed subject of \<open>m\<close>.
  The tree of a commit is the content of \<^verbatim>\<open>document.md\<close> in it, \<open>None\<close> when the file
  is not part of the commit.
\<close>

datatype message =
    Create_document string
  | Update_document
  | Revert_to message
  | Revert_to_previous_version

record commit =
  c_hash :: hash
  c_parent :: "hash option"
  c_tree :: "string option"
  c_msg :: message

text \<open>
  A document directory: the file on disk, the staged version of the file, and the log,
  newest commit first.
\<close>

record repo =
  r_worktree :: "string option"
  r_index :: "string option"
  r_commits :: "commit list"

record server =
  users :: "string \<rightharpoonup> user_id"
  documents :: "(doc_id \<times> document) list"
  next_doc_id :: doc_id
  permissions :: "doc_id \<times> user_id \<rightharpoonup> role"
  storage :: "doc_id \<rightharpoonup> repo"
  gitLocks :: "doc_id set"

text \<open>
  Every awaited or synchronous input/output operation of a handler can throw. A handler
  run is given a predicate telling which of its operations complete; failures that the
  state itself determines (an unknown hash, a missing directory, a violated constraint)
  are part of the operations below.
\<close>

datatype io =
    Q_owner | Q_perm | Q_doc | Q_user | Q_doc_name | Q_insert_doc | Q_insert_perm | Q_upsert_perm
  | Fs_mkdir | Fs_read | Fs_write
  | Git_init | Git_log | Git_show_file | Git_show_subject | Git_add | Git_status | Git_commit

datatype alert = Alert_success | Alert_error

text \<open>
  What a handler answers. \<open>Success\<close> is \<^verbatim>\<open>{success: true}\<close> and \<open>Queued\<close> is
  \<^verbatim>\<open>{success: true, queued: true}\<close>, the answer of a save that found the lock taken;
  \<open>Forbidden\<close> is status 403, the two not-found answers are status 404 and \<open>Error500\<close> is
  what the \<^verbatim>\<open>catch\<close> blocks send.
\<close>

datatype response =
    Success
  | Queued
  | Created doc_id document
  | History "commit list"
  | Forbidden
  | Doc_not_found
  | User_not_found
  | Error500

definition filename :: string where
  "filename = ''document.md''"

section \<open>The version store: git on one document directory\<close>

definition empty_repo :: repo where
  "empty_repo = \<lparr>r_worktree = None, r_index = None, r_commits = []\<rparr>"

definition head_tree :: "repo \<Rightarrow> string option" where
  "head_tree r = (case r_commits r of [] \<Rightarrow> None | c # _ \<Rightarrow> c_tree c)"

definition head_hash :: "repo \<Rightarrow> hash option" where
  "head_hash r = (case r_commits r of [] \<Rightarrow> None | c # _ \<Rightarrow> Some (c_hash c))"

definition fresh_hash :: "commit list \<Rightarrow> hash" where
  "fresh_hash cs = Suc (foldr max (map c_hash cs) 0)"

definition find_commit :: "repo \<Rightarrow> hash \<Rightarrow> commit option" where
  "find_commit r h = find (\<lambda>c. c_hash c = h) (r_commits r)"

text \<open>\<^verbatim>\<open>git log\<close> fails on a repository without commits.\<close>

definition repo_log :: "repo \<Rightarrow> commit list option" where
  "repo_log r = (if r_commits r = [] then None else Some (r_commits r))"

text \<open>\<^verbatim>\<open>git show\<close> of a file at a commit fails when the hash is unknown or the file is not in that commit.\<close>

definition repo_show_file :: "repo \<Rightarrow> hash \<Rightarrow> string option" where
  "repo_show_file r h = (case find_commit r h of None \<Rightarrow> None | Some c \<Rightarrow> c_tree c)"

definition repo_show_subject :: "repo \<Rightarrow> hash \<Rightarrow> message option" where
  "repo_show_subject r h = (case find_commit r h of None \<Rightarrow> None | Some c \<Rightarrow> Some (c_msg c))"

text \<open>
  \<^verbatim>\<open>git add document.md\<close> stages the file as it is on disk; with no file on disk it
  stages the deletion of a tracked file and fails for an untracked one.
\<close>

definition repo_add :: "repo \<Rightarrow> repo option" where
  "repo_add r =
     (case r_worktree r of
        Some t \<Rightarrow> Some (r\<lparr>r_index := Some t\<rparr>)
      | None \<Rightarrow> (if r_index r = None then None else Some (r\<lparr>r_index := None\<rparr>)))"

text \<open>
  What the handlers read of \<^verbatim>\<open>git status\<close>: whether \<^verbatim>\<open>status.modified\<close> and
  \<^verbatim>\<open>status.not_added\<close> include the file. The file is listed as modified when the staged
  version differs from the head commit's or the version on disk differs from the staged
  one, and as not added when it is on disk and untracked.
\<close>

record status =
  modified :: bool
  not_added :: bool

definition differs :: "string option \<Rightarrow> string option \<Rightarrow> bool" where
  "differs a b = (case (a, b) of (Some x, Some y) \<Rightarrow> x \<noteq> y | _ \<Rightarrow> False)"

definition repo_status :: "repo \<Rightarrow> status" where
  "repo_status r =
     \<lparr>modified = (differs (head_tree r) (r_index r) \<or> differs (r_index r) (r_worktree r)),
      not_added = (r_index r = None \<and> r_worktree r \<noteq> None)\<rparr>"

text \<open>
  \<^verbatim>\<open>git commit\<close> records the staged version as the new head. When the
  staged version equals the head commit's there is nothing to commit: without
  \<^verbatim>\<open>--allow-empty\<close> no commit is made and the call still resolves (the specification's
  version store: identical content, normal commits are skipped, except when forced).
\<close>

definition repo_commit :: "bool \<Rightarrow> message \<Rightarrow> repo \<Rightarrow> repo" where
  "repo_commit allow_empty m r =
     (if r_index r = head_tree r \<and> \<not> allow_empty then r
      else r\<lparr>r_commits :=
             \<lparr>c_hash = fresh_hash (r_commits r), c_parent = head_hash r,
              c_tree = r_index r, c_msg = m\<rparr> # r_commits r\<rparr>)"

section \<open>Input and output on one document directory\<close>

text \<open>
  The calls the handlers make on a document's directory and on its \<^verbatim>\<open>git\<close> instance.
  Each fails (\<open>None\<close>) when its input/output fails in this run, \<^verbatim>\<open>git\<close> calls also
  when git itself refuses. \<^verbatim>\<open>fs_read\<close> is the handler's
  \<^verbatim>\<open>existsSync\<close> test followed by \<^verbatim>\<open>readFileSync\<close>: a missing file reads as the empty
  string.
\<close>

definition fs_read :: "(io \<Rightarrow> bool) \<Rightarrow> repo \<Rightarrow> string option" where
  "fs_read ok r =
     (case r_worktree r of
        None \<Rightarrow> Some []
      | Some t \<Rightarrow> if ok Fs_read then Some t else None)"

definition fs_write :: "(io \<Rightarrow> bool) \<Rightarrow> string \<Rightarrow> repo \<Rightarrow> repo option" where
  "fs_write ok txt r = (if ok Fs_write then Some (r\<lparr>r_worktree := Some txt\<rparr>) else None)"

definition git_log :: "(io \<Rightarrow> bool) \<Rightarrow> repo \<Rightarrow> commit list option" where
  "git_log ok r = (if ok Git_log then repo_log r else None)"

definition git_show_file :: "(io \<Rightarrow> bool) \<Rightarrow> hash \<Rightarrow> repo \<Rightarrow> string option" where
  "git_show_file ok h r = (if ok Git_show_file then repo_show_file r h else None)"

definition git_show_subject :: "(io \<Rightarrow> bool) \<Rightarrow> hash \<Rightarrow> repo \<Rightarrow> message option" where
  "git_show_subject ok h r = (if ok Git_show_subject then repo_show_subject r h else None)"

definition git_add :: "(io \<Rightarrow> bool) \<Rightarrow> repo \<Rightarrow> repo option" where
  "git_add ok r = (if ok Git_add then repo_add r else None)"

definition git_status :: "(io \<Rightarrow> bool) \<Rightarrow> repo \<Rightarrow> status option" where
  "git_status ok r = (if ok Git_status then Some (repo_status r) else None)"

definition git_commit :: "(io \<Rightarrow> bool) \<Rightarrow> bool \<Rightarrow> message \<Rightarrow> repo \<Rightarrow> repo option" where
  "git_commit ok allow_empty m r =
     (if ok Git_commit then Some (repo_commit allow_empty m r) else None)"

text \<open>
  The same calls addressed by document: they fail when the document's directory does
  not exist.
\<close>

definition put_repo :: "server \<Rightarrow> doc_id \<Rightarrow> repo \<Rightarrow> server" where
  "put_repo s d r = s\<lparr>storage := (storage s)(d \<mapsto> r)\<rparr>"

definition read_repo :: "server \<Rightarrow> doc_id \<Rightarrow> (repo \<Rightarrow> 'a option) \<Rightarrow> 'a option" where
  "read_repo s d f = (case storage s d of None \<Rightarrow> None | Some r \<Rightarrow> f r)"

definition change_repo :: "server \<Rightarrow> doc_id \<Rightarrow> (repo \<Rightarrow> repo option) \<Rightarrow> server option" where
  "change_repo s d f =
     (case storage s d of None \<Rightarrow> None | Some r \<Rightarrow> map_option (put_repo s d) (f r))"

text \<open>
  \<^verbatim>\<open>initDocumentRepo\<close>: create the directory when it is missing, then \<^verbatim>\<open>git init\<close>,
  which leaves an existing repository as it is.
\<close>

definition initDocumentRepo :: "(io \<Rightarrow> bool) \<Rightarrow> server \<Rightarrow> doc_id \<Rightarrow> server option" where
  "initDocumentRepo ok s docId =
     (case storage s docId of
        None \<Rightarrow> if ok Fs_mkdir \<and> ok Git_init then Some (put_repo s docId empty_repo) else None
      | Some r \<Rightarrow> if ok Git_init then Some s else None)"

section \<open>Roles\<close>

text \<open>
  \<^verbatim>\<open>getUserDocumentRole\<close>: the owner query first, the permissions table only for a user
  who is not the owner; any database error is caught and gives \<^verbatim>\<open>null\<close>.
\<close>

definition getUserDocumentRole ::
  "(io \<Rightarrow> bool) \<Rightarrow> server \<Rightarrow> user_id \<Rightarrow> doc_id \<Rightarrow> role option" where
  "getUserDocumentRole ok s userId documentId =
     (if \<not> ok Q_owner then None
      else case map_of (documents s) documentId of
        None \<Rightarrow> None
      | Some d \<Rightarrow>
          if owner_id d = userId then Some Owner
          else if \<not> ok Q_perm then None
          else permissions s (documentId, userId))"

text \<open>The save handler's test \<^verbatim>\<open>!role || (role !== 'owner' && role !== 'writer')\<close>, negated.\<close>

definition can_write :: "role option \<Rightarrow> bool" where
  "can_write role = (role \<noteq> None \<and> \<not> (role \<noteq> Some Owner \<and> role \<noteq> Some Writer))"

section \<open>Request handlers\<close>

subsection \<open>Create and share\<close>

text \<open>
  \<^verbatim>\<open>POST /api/documents\<close>. The insert fails when the \<^verbatim>\<open>UNIQUE\<close> constraint on
  \<^verbatim>\<open>fs_path\<close> is violated; the name is not examined. Whatever was done before a failure
  stays done.
\<close>

definition create_document ::
  "(io \<Rightarrow> bool) \<Rightarrow> server \<Rightarrow> string \<Rightarrow> user_id \<Rightarrow> response \<times> server" where
  "create_document ok s name userId =
     (if \<not> ok Q_insert_doc then (Error500, s)
      else if filename \<in> set (map (fs_path \<circ> snd) (documents s)) then (Error500, s)
      else
        let docId = next_doc_id s;
            row = \<lparr>doc_name = name, fs_path = filename, owner_id = userId\<rparr>;
            s1 = s\<lparr>documents := documents s @ [(docId, row)], next_doc_id := Suc docId\<rparr>
        in case initDocumentRepo ok s1 docId of
             None \<Rightarrow> (Error500, s1)
           | Some s2 \<Rightarrow>
          (case change_repo s2 docId (fs_write ok []) of
             None \<Rightarrow> (Error500, s2)
           | Some s3 \<Rightarrow>
          (case change_repo s3 docId (git_add ok) of
             None \<Rightarrow> (Error500, s3)
           | Some s4 \<Rightarrow>
          (case change_repo s4 docId (git_commit ok False (Create_document name)) of
             None \<Rightarrow> (Error500, s4)
           | Some s5 \<Rightarrow>
               if \<not> ok Q_insert_perm then (Error500, s5)
               else if permissions s5 (docId, userId) \<noteq> None then (Error500, s5)
               else (Created docId row,
                     s5\<lparr>permissions := (permissions s5)((docId, userId) \<mapsto> Owner)\<rparr>)))))"

text \<open>
  The client's handler of the create button (\<^verbatim>\<open>main.js\<close>): with an empty name it returns
  at once, sending nothing and showing nothing; otherwise it posts the request and shows
  an alert.
\<close>

definition create_doc_click ::
  "(io \<Rightarrow> bool) \<Rightarrow> server \<Rightarrow> string \<Rightarrow> user_id \<Rightarrow> alert option \<times> server" where
  "create_doc_click ok s name userId =
     (if name = [] then (None, s)
      else case create_document ok s name userId of
             (Created docId row, s') \<Rightarrow> (Some Alert_success, s')
           | (_, s') \<Rightarrow> (Some Alert_error, s'))"

text \<open>
  \<^verbatim>\<open>POST /api/documents/:id/share\<close>. The statement names \<^verbatim>\<open>$3\<close> twice, in the values and
  in \<^verbatim>\<open>DO UPDATE SET role = $3\<close>, and \<^verbatim>\<open>db.query\<close> replaces every \<^verbatim>\<open>$n\<close> by a positional
  \<^verbatim>\<open>?\<close>: four placeholders for three parameters, the fourth unbound. For a new pair the
  grant is inserted. For a pair that has a grant the update would set the role to
  \<^verbatim>\<open>NULL\<close>, the \<^verbatim>\<open>NOT NULL\<close> constraint refuses it, and the handler answers 500 with the
  row as it was. Nothing requires the document to exist.
\<close>

definition share ::
  "(io \<Rightarrow> bool) \<Rightarrow> server \<Rightarrow> doc_id \<Rightarrow> string \<Rightarrow> role \<Rightarrow> response \<times> server" where
  "share ok s docId username role =
     (if \<not> ok Q_user then (Error500, s)
      else case users s username of
        None \<Rightarrow> (User_not_found, s)
      | Some targetUserId \<Rightarrow>
          if \<not> ok Q_doc_name then (Error500, s)
          else if \<not> ok Q_upsert_perm then (Error500, s)
          else if permissions s (docId, targetUserId) \<noteq> None then (Error500, s)
          else (Success, s\<lparr>permissions := (permissions s)((docId, targetUserId) \<mapsto> role)\<rparr>))"

subsection \<open>History\<close>

definition get_history :: "(io \<Rightarrow> bool) \<Rightarrow> server \<Rightarrow> doc_id \<Rightarrow> response" where
  "get_history ok s docId =
     (if \<not> ok Q_doc then Error500
      else case map_of (documents s) docId of
        None \<Rightarrow> Doc_not_found
      | Some d \<Rightarrow>
         (case read_repo s docId (git_log ok) of
            None \<Rightarrow> Error500
          | Some filteredLog \<Rightarrow> History filteredLog))"

text \<open>The commits of a document's repository, whether or not the log can be served.\<close>

definition doc_commits :: "server \<Rightarrow> doc_id \<Rightarrow> commit list" where
  "doc_commits s d = (case storage s d of None \<Rightarrow> [] | Some r \<Rightarrow> r_commits r)"

definition doc_file :: "server \<Rightarrow> doc_id \<Rightarrow> string option" where
  "doc_file s d = (case storage s d of None \<Rightarrow> None | Some r \<Rightarrow> r_worktree r)"

subsection \<open>Save\<close>

definition unlock :: "doc_id \<Rightarrow> server \<Rightarrow> server" where
  "unlock docId s = s\<lparr>gitLocks := gitLocks s - {docId}\<rparr>"

definition lock :: "doc_id \<Rightarrow> server \<Rightarrow> server" where
  "lock docId s = s\<lparr>gitLocks := insert docId (gitLocks s)\<rparr>"

text \<open>
  The file and git part of the save handler: write the content, ask for the status,
  and stage and commit when the file is listed as modified or not added. An exception
  ends it with what was done so far.
\<close>

definition save_files :: "(io \<Rightarrow> bool) \<Rightarrow> string \<Rightarrow> repo \<Rightarrow> response \<times> repo" where
  "save_files ok content r =
     (case fs_write ok content r of
        None \<Rightarrow> (Error500, r)
      | Some r2 \<Rightarrow>
     (case git_status ok r2 of
        None \<Rightarrow> (Error500, r2)
      | Some st \<Rightarrow>
          if modified st \<or> not_added st then
           (case git_add ok r2 of
              None \<Rightarrow> (Error500, r2)
            | Some r3 \<Rightarrow>
           (case git_commit ok False Update_document r3 of
              None \<Rightarrow> (Error500, r3)
            | Some r4 \<Rightarrow> (Success, r4)))
          else (Success, r2)))"

text \<open>
  \<^verbatim>\<open>POST /api/documents/:id/save\<close>, run from the request to the response without any other
  request in between. Every way out of the \<^verbatim>\<open>try\<close> block deletes the lock entry.
\<close>

definition save ::
  "(io \<Rightarrow> bool) \<Rightarrow> server \<Rightarrow> doc_id \<Rightarrow> string \<Rightarrow> user_id \<Rightarrow> response \<times> server" where
  "save ok s docId content userId =
     (let role = getUserDocumentRole ok s userId docId in
      if \<not> can_write role then (Forbidden, s)
      else if docId \<in> gitLocks s then (Queued, s)
      else
        let s1 = lock docId s in
        if \<not> ok Q_doc then (Error500, unlock docId s1)
        else case map_of (documents s1) docId of
          None \<Rightarrow> (Doc_not_found, unlock docId s1)
        | Some d \<Rightarrow>
         (case storage s1 docId of
            None \<Rightarrow> (Error500, unlock docId s1)
          | Some r \<Rightarrow>
             (case save_files ok content r of
                (resp, r') \<Rightarrow> (resp, unlock docId (put_repo s1 docId r')))))"

subsection \<open>Rollback\<close>

text \<open>
  The file and git part of the rollback handler. Both \<^verbatim>\<open>git show\<close> calls are wrapped in
  their own \<^verbatim>\<open>try\<close>: a failure of the first makes the content the empty string, a failure
  of the second keeps the default message. The commit is made with \<^verbatim>\<open>--allow-empty\<close>
  exactly when \<^verbatim>\<open>hasChanges\<close> is false.
\<close>

definition rollback_files :: "(io \<Rightarrow> bool) \<Rightarrow> hash \<Rightarrow> repo \<Rightarrow> response \<times> repo" where
  "rollback_files ok h r =
     (case git_log ok r of
        None \<Rightarrow> (Error500, r)
      | Some currentLog \<Rightarrow>
        let fileContent = (case git_show_file ok h r of None \<Rightarrow> [] | Some t \<Rightarrow> t) in
       (case fs_read ok r of
          None \<Rightarrow> (Error500, r)
        | Some currentContent \<Rightarrow>
       (case fs_write ok fileContent r of
          None \<Rightarrow> (Error500, r)
        | Some r1 \<Rightarrow>
          let commitMessage =
                (case git_show_subject ok h r1 of
                   None \<Rightarrow> Revert_to_previous_version
                 | Some m \<Rightarrow> Revert_to m) in
         (case git_add ok r1 of
            None \<Rightarrow> (Error500, r1)
          | Some r2 \<Rightarrow>
         (case git_status ok r2 of
            None \<Rightarrow> (Error500, r2)
          | Some st \<Rightarrow>
            let hasChanges = (modified st \<or> not_added st \<or> currentContent \<noteq> fileContent) in
           (case git_commit ok (\<not> hasChanges) commitMessage r2 of
              None \<Rightarrow> (Error500, r2)
            | Some r3 \<Rightarrow> (Success, r3)))))))"

text \<open>
  \<^verbatim>\<open>POST /api/documents/:id/rollback\<close>, run without any other request in between. The
  request carries the hash only; the handler reads neither the requester nor \<^verbatim>\<open>gitLocks\<close>.
\<close>

definition rollback ::
  "(io \<Rightarrow> bool) \<Rightarrow> server \<Rightarrow> doc_id \<Rightarrow> hash \<Rightarrow> response \<times> server" where
  "rollback ok s docId h =
     (if \<not> ok Q_doc then (Error500, s)
      else case map_of (documents s) docId of
        None \<Rightarrow> (Doc_not_found, s)
      | Some d \<Rightarrow>
       (case storage s docId of
          None \<Rightarrow> (Error500, s)
        | Some r \<Rightarrow>
           (case rollback_files ok h r of
              (resp, r') \<Rightarrow> (resp, put_repo s docId r'))))"

section \<open>Interleaved requests\<close>

text \<open>
  The handlers are \<^verbatim>\<open>async\<close> functions on a single-threaded event loop: a handler runs
  without interruption up to its next \<^verbatim>\<open>await\<close>, and other requests run while it waits.
  One step of a request below performs one awaited operation together with the
  synchronous code that follows it, up to the point where the next operation is awaited.
  The program counter carries the local variables that are still needed.
\<close>

datatype save_pc =
    Sv_owner_query
  | Sv_perm_query
  | Sv_doc_query
  | Sv_status
  | Sv_add
  | Sv_commit
  | Sv_done response

text \<open>
  What the save handler does once \<^verbatim>\<open>getUserDocumentRole\<close> has returned: the permission
  test, then the test and the setting of the lock, with no \<^verbatim>\<open>await\<close> in between.
\<close>

definition save_after_role :: "doc_id \<Rightarrow> role option \<Rightarrow> server \<Rightarrow> save_pc \<times> server" where
  "save_after_role docId role s =
     (if \<not> can_write role then (Sv_done Forbidden, s)
      else if docId \<in> gitLocks s then (Sv_done Queued, s)
      else (Sv_doc_query, lock docId s))"

fun save_step ::
  "(io \<Rightarrow> bool) \<Rightarrow> doc_id \<Rightarrow> string \<Rightarrow> user_id \<Rightarrow> save_pc \<Rightarrow> server \<Rightarrow> save_pc \<times> server" where
  "save_step ok docId content userId Sv_owner_query s =
     (if \<not> ok Q_owner then save_after_role docId None s
      else case map_of (documents s) docId of
        None \<Rightarrow> save_after_role docId None s
      | Some d \<Rightarrow>
          if owner_id d = userId then save_after_role docId (Some Owner) s
          else (Sv_perm_query, s))"
| "save_step ok docId content userId Sv_perm_query s =
     save_after_role docId (if \<not> ok Q_perm then None else permissions s (docId, userId)) s"
| "save_step ok docId content userId Sv_doc_query s =
     (if \<not> ok Q_doc then (Sv_done Error500, unlock docId s)
      else case map_of (documents s) docId of
        None \<Rightarrow> (Sv_done Doc_not_found, unlock docId s)
      | Some d \<Rightarrow>
         (case change_repo s docId (fs_write ok content) of
            None \<Rightarrow> (Sv_done Error500, unlock docId s)
          | Some s2 \<Rightarrow> (Sv_status, s2)))"
| "save_step ok docId content userId Sv_status s =
     (case read_repo s docId (git_status ok) of
        None \<Rightarrow> (Sv_done Error500, unlock docId s)
      | Some st \<Rightarrow>
          if modified st \<or> not_added st then (Sv_add, s)
          else (Sv_done Success, unlock docId s))"
| "save_step ok docId content userId Sv_add s =
     (case change_repo s docId (git_add ok) of
        None \<Rightarrow> (Sv_done Error500, unlock docId s)
      | Some s3 \<Rightarrow> (Sv_commit, s3))"
| "save_step ok docId content userId Sv_commit s =
     (case change_repo s docId (git_commit ok False Update_document) of
        None \<Rightarrow> (Sv_done Error500, unlock docId s)
      | Some s4 \<Rightarrow> (Sv_done Success, unlock docId s4))"
| "save_step ok docId content userId (Sv_done resp) s = (Sv_done resp, s)"

datatype rollback_pc =
    Rb_doc_query
  | Rb_log
  | Rb_show_file
  | Rb_show_subject string string
  | Rb_add string string message
  | Rb_status string string message
  | Rb_commit bool message
  | Rb_done response

fun rollback_step ::
  "(io \<Rightarrow> bool) \<Rightarrow> doc_id \<Rightarrow> hash \<Rightarrow> rollback_pc \<Rightarrow> server \<Rightarrow> rollback_pc \<times> server" where
  "rollback_step ok docId h Rb_doc_query s =
     (if \<not> ok Q_doc then (Rb_done Error500, s)
      else case map_of (documents s) docId of
        None \<Rightarrow> (Rb_done Doc_not_found, s)
      | Some d \<Rightarrow> if storage s docId = None then (Rb_done Error500, s) else (Rb_log, s))"
| "rollback_step ok docId h Rb_log s =
     (case read_repo s docId (git_log ok) of
        None \<Rightarrow> (Rb_done Error500, s)
      | Some currentLog \<Rightarrow> (Rb_show_file, s))"
| "rollback_step ok docId h Rb_show_file s =
     (case storage s docId of
        None \<Rightarrow> (Rb_done Error500, s)
      | Some r \<Rightarrow>
          let fileContent = (case git_show_file ok h r of None \<Rightarrow> [] | Some t \<Rightarrow> t) in
         (case fs_read ok r of
            None \<Rightarrow> (Rb_done Error500, s)
          | Some currentContent \<Rightarrow>
         (case fs_write ok fileContent r of
            None \<Rightarrow> (Rb_done Error500, s)
          | Some r1 \<Rightarrow> (Rb_show_subject fileContent currentContent, put_repo s docId r1))))"
| "rollback_step ok docId h (Rb_show_subject fileContent currentContent) s =
     (let commitMessage =
            (case read_repo s docId (git_show_subject ok h) of
               None \<Rightarrow> Revert_to_previous_version
             | Some m \<Rightarrow> Revert_to m)
      in (Rb_add fileContent currentContent commitMessage, s))"
| "rollback_step ok docId h (Rb_add fileContent currentContent commitMessage) s =
     (case change_repo s docId (git_add ok) of
        None \<Rightarrow> (Rb_done Error500, s)
      | Some s2 \<Rightarrow> (Rb_status fileContent currentContent commitMessage, s2))"
| "rollback_step ok docId h (Rb_status fileContent currentContent commitMessage) s =
     (case read_repo s docId (git_status ok) of
        None \<Rightarrow> (Rb_done Error500, s)
      | Some st \<Rightarrow>
          let hasChanges = (modified st \<or> not_added st \<or> currentContent \<noteq> fileContent)
          in (Rb_commit (\<not> hasChanges) commitMessage, s))"
| "rollback_step ok docId h (Rb_commit allow_empty commitMessage) s =
     (case change_repo s docId (git_commit ok allow_empty commitMessage) of
        None \<Rightarrow> (Rb_done Error500, s)
      | Some s3 \<Rightarrow> (Rb_done Success, s3))"
| "rollback_step ok docId h (Rb_done resp) s = (Rb_done resp, s)"

text \<open>Requests in flight, and a schedule that names the request whose step comes next.\<close>

datatype request =
    Save_request "io \<Rightarrow> bool" doc_id string user_id save_pc
  | Rollback_request "io \<Rightarrow> bool" doc_id hash rollback_pc

fun request_step :: "request \<Rightarrow> server \<Rightarrow> request \<times> server" where
  "request_step (Save_request ok docId content userId pc) s =
     (case save_step ok docId content userId pc s of
        (pc', s') \<Rightarrow> (Save_request ok docId content userId pc', s'))"
| "request_step (Rollback_request ok docId h pc) s =
     (case rollback_step ok docId h pc s of
        (pc', s') \<Rightarrow> (Rollback_request ok docId h pc', s'))"

fun run :: "nat list \<Rightarrow> request list \<times> server \<Rightarrow> request list \<times> server" where
  "run [] cfg = cfg"
| "run (i # sched) (reqs, s) =
     (if i < length reqs
      then case request_step (reqs ! i) s of (q, s') \<Rightarrow> run sched (reqs[i := q], s')
      else run sched (reqs, s))"

fun save_steps ::
  "nat \<Rightarrow> (io \<Rightarrow> bool) \<Rightarrow> doc_id \<Rightarrow> string \<Rightarrow> user_id \<Rightarrow> save_pc \<times> server \<Rightarrow> save_pc \<times> server" where
  "save_steps 0 ok docId content userId cfg = cfg"
| "save_steps (Suc n) ok docId content userId (pc, s) =
     save_steps n ok docId content userId (save_step ok docId content userId pc s)"

fun rollback_steps ::
  "nat \<Rightarrow> (io \<Rightarrow> bool) \<Rightarrow> doc_id \<Rightarrow> hash \<Rightarrow> rollback_pc \<times> server \<Rightarrow> rollback_pc \<times> server" where
  "rollback_steps 0 ok docId h cfg = cfg"
| "rollback_steps (Suc n) ok docId h (pc, s) =
     rollback_steps n ok docId h (rollback_step ok docId h pc s)"

text \<open>
  A save request holds the lock from the step that sets it to the step that answers.
\<close>

fun holds_lock :: "save_pc \<Rightarrow> bool" where
  "holds_lock Sv_doc_query = True"
| "holds_lock Sv_status = True"
| "holds_lock Sv_add = True"
| "holds_lock Sv_commit = True"
| "holds_lock pc = False"





section \<open>A worked scenario\<close>

text \<open>
  No input/output failure; three registered users; the first document created by user 1,
  saved twice, shared with user 2 as writer and with user 3 as reader.
\<close>

definition no_fault :: "io \<Rightarrow> bool" where
  "no_fault p = True"

definition fail_at :: "io \<Rightarrow> io \<Rightarrow> bool" where
  "fail_at x p = (p \<noteq> x)"

definition server0 :: server where
  "server0 =
     \<lparr>users = [''u1'' \<mapsto> 1, ''u2'' \<mapsto> 2, ''u3'' \<mapsto> 3],
      documents = [], next_doc_id = 1, permissions = Map.empty,
      storage = Map.empty, gitLocks = {}\<rparr>"

definition notes_row :: document where
  "notes_row = \<lparr>doc_name = ''Notes'', fs_path = filename, owner_id = 1\<rparr>"

definition commit0 :: commit where
  "commit0 = \<lparr>c_hash = 1, c_parent = None, c_tree = Some [], c_msg = Create_document ''Notes''\<rparr>"

definition commit1 :: commit where
  "commit1 = \<lparr>c_hash = 2, c_parent = Some 1, c_tree = Some ''Hello'', c_msg = Update_document\<rparr>"

definition commit2 :: commit where
  "commit2 =
     \<lparr>c_hash = 3, c_parent = Some 2, c_tree = Some ''Hello World'', c_msg = Update_document\<rparr>"

definition commit3 :: commit where
  "commit3 =
     \<lparr>c_hash = 4, c_parent = Some 3, c_tree = Some ''Hello'', c_msg = Revert_to Update_document\<rparr>"

text \<open>A repository with nothing pending: the file on disk and the staged file are the head commit's.\<close>

definition clean_repo :: "commit list \<Rightarrow> repo" where
  "clean_repo cs =
     \<lparr>r_worktree = (case cs of [] \<Rightarrow> None | c # _ \<Rightarrow> c_tree c),
      r_index = (case cs of [] \<Rightarrow> None | c # _ \<Rightarrow> c_tree c),
      r_commits = cs\<rparr>"

definition notes_server :: "repo \<Rightarrow> server" where
  "notes_server r =
     \<lparr>users = [''u1'' \<mapsto> 1, ''u2'' \<mapsto> 2, ''u3'' \<mapsto> 3],
      documents = [(1, notes_row)], next_doc_id = 2,
      permissions = [(1, 1) \<mapsto> Owner, (1, 2) \<mapsto> Writer, (1, 3) \<mapsto> Reader],
      storage = [1 \<mapsto> r], gitLocks = {}\<rparr>"

text \<open>
  The document with two commits whose file on disk holds text that was never committed:
  what a save leaves behind when its \<^verbatim>\<open>git status\<close> fails after the file was written.
\<close>

definition dirty_repo :: repo where
  "dirty_repo =
     \<lparr>r_worktree = Some ''Draft'', r_index = Some ''Hello'', r_commits = [commit1, commit0]\<rparr>"

text \<open>The commit a rollback to an unknown hash adds on top of three commits.\<close>

definition commit_empty :: commit where
  "commit_empty =
     \<lparr>c_hash = 4, c_parent = Some 3, c_tree = Some [], c_msg = Revert_to_previous_version\<rparr>"

text \<open>The commit a rollback to the initial commit adds on top of two commits.\<close>

definition commit_revert0 :: commit where
  "commit_revert0 =
     \<lparr>c_hash = 3, c_parent = Some 2, c_tree = Some [],
      c_msg = Revert_to (Create_document ''Notes'')\<rparr>"

text \<open>The document whose row has gone from the database while a save holds the lock.\<close>

definition orphan_server :: server where
  "orphan_server = (notes_server (clean_repo [commit0]))\<lparr>documents := [], gitLocks := {1}\<rparr>"

text \<open>
  The first document when its future owner was granted the reader role on document 1
  before the document was created: the create handler inserts the row and makes the
  initial commit, its insert of the owner's grant then fails on the pair that is already
  there, and the reader row stays.
\<close>

definition shared_with_owner :: server where
  "shared_with_owner =
     snd (create_document no_fault (snd (share no_fault server0 1 ''u1'' Reader)) ''Notes'' 1)"

section \<open>Basic facts\<close>

lemmas repo_defs = head_tree_def head_hash_def find_commit_def repo_log_def repo_show_file_def
  repo_show_subject_def repo_add_def repo_status_def differs_def repo_commit_def empty_repo_def
  fresh_hash_def

lemmas io_defs = fs_read_def fs_write_def git_log_def git_show_file_def git_show_subject_def
  git_add_def git_status_def git_commit_def

lemmas op_defs = io_defs put_repo_def read_repo_def change_repo_def initDocumentRepo_def
  doc_commits_def doc_file_def unlock_def lock_def

lemmas scenario_defs = no_fault_def fail_at_def server0_def notes_row_def commit0_def commit1_def
  commit2_def commit3_def clean_repo_def notes_server_def filename_def dirty_repo_def
  commit_empty_def commit_revert0_def orphan_server_def

lemmas eval_defs = save_def save_files_def rollback_def rollback_files_def get_history_def
  getUserDocumentRole_def can_write_def save_after_role_def Let_def op_defs repo_defs
  scenario_defs eval_nat_numeral

lemma can_write_iff: "can_write role \<longleftrightarrow> role = Some Owner \<or> role = Some Writer"
  by (auto simp: can_write_def)

lemma storage_same: "storage s d = Some r \<Longrightarrow> s\<lparr>storage := (storage s)(d \<mapsto> r)\<rparr> = s"
  by (simp add: fun_upd_idem)

lemma fresh_hash_new: "fresh_hash cs \<notin> set (map c_hash cs)"
proof -
  have "\<forall>c \<in> set cs. c_hash c \<le> foldr max (map c_hash cs) 0"
    by (induction cs) auto
  then show ?thesis
    by (fastforce simp: fresh_hash_def)
qed

lemma doc_commits_lock [simp]: "doc_commits (lock d s) d0 = doc_commits s d0"
  by (simp add: doc_commits_def lock_def)

lemma doc_commits_unlock [simp]: "doc_commits (unlock d s) d0 = doc_commits s d0"
  by (simp add: doc_commits_def unlock_def)

subsection \<open>What the calls do to the log and to the lock map\<close>




lemma git_log_commits: "r_commits r' = r_commits r \<Longrightarrow> git_log ok r' = git_log ok r"
  by (simp add: git_log_def repo_log_def)

lemma change_repo_locks: "change_repo s d f = Some s' \<Longrightarrow> gitLocks s' = gitLocks s"
  by (auto simp: change_repo_def put_repo_def split: option.splits)





subsection \<open>The handlers and their steps agree\<close>

text \<open>
  Run alone, the six steps of a save request and the seven steps of a rollback request
  give the response and the state of the handlers defined above.
\<close>

lemma save_steps_eq:
  "save_steps 6 ok d c u (Sv_owner_query, s) = (Sv_done (fst (save ok s d c u)), snd (save ok s d c u))"
  by (auto simp: eval_nat_numeral save_def save_files_def Let_def getUserDocumentRole_def
        save_after_role_def change_repo_def read_repo_def lock_def unlock_def put_repo_def
        storage_same can_write_def
      split: option.splits if_splits)

lemma rollback_steps_eq:
  "rollback_steps 7 ok d h (Rb_doc_query, s) =
     (Rb_done (fst (rollback ok s d h)), snd (rollback ok s d h))"
  by (auto simp: eval_nat_numeral rollback_def rollback_files_def Let_def change_repo_def
        read_repo_def put_repo_def storage_same
      split: option.splits if_splits)

subsection \<open>The scenario, step by step\<close>

text \<open>Creating the first document: one row, the owner's grant, and the initial commit of the empty file.\<close>

lemma created:
  "create_document no_fault server0 ''Notes'' 1 =
     (Created 1 notes_row, notes_server (clean_repo [commit0])\<lparr>permissions := [(1, 1) \<mapsto> Owner]\<rparr>)"
  by (simp add: create_document_def Let_def op_defs repo_defs scenario_defs)

text \<open>A share that names the owner of the created document is refused and changes nothing.\<close>

lemma share_with_owner_refused:
  "share no_fault (snd (create_document no_fault server0 ''Notes'' 1)) 1 ''u1'' Reader
     = (Error500, snd (create_document no_fault server0 ''Notes'' 1))"
  unfolding created
  by (simp add: share_def notes_server_def no_fault_def)

lemma shared_before_created:
  "share no_fault server0 1 ''u1'' Reader = (Success, server0\<lparr>permissions := [(1, 1) \<mapsto> Reader]\<rparr>)"
  by (simp add: share_def server0_def no_fault_def)

lemma shared_with_owner_eq:
  "shared_with_owner = (notes_server (clean_repo [commit0]))\<lparr>permissions := [(1, 1) \<mapsto> Reader]\<rparr>"
  unfolding shared_with_owner_def shared_before_created
  by (simp add: create_document_def Let_def op_defs repo_defs scenario_defs)

lemma role_owner: "getUserDocumentRole no_fault (notes_server r) 1 1 = Some Owner"
  by (simp add: getUserDocumentRole_def scenario_defs)

lemma role_writer: "getUserDocumentRole no_fault (notes_server r) 2 1 = Some Writer"
  by (simp add: getUserDocumentRole_def scenario_defs)

lemma role_reader: "getUserDocumentRole no_fault (notes_server r) 3 1 = Some Reader"
  by (simp add: getUserDocumentRole_def scenario_defs)

lemma scenario_save_hello:
  "save no_fault (notes_server (clean_repo [commit0])) 1 ''Hello'' 1
     = (Success, notes_server (clean_repo [commit1, commit0]))"
  by (simp add: eval_defs)

lemma scenario_save_hello_world:
  "save no_fault (notes_server (clean_repo [commit1, commit0])) 1 ''Hello World'' 2
     = (Success, notes_server (clean_repo [commit2, commit1, commit0]))"
  by (simp add: eval_defs)

lemma scenario_save_same:
  "save no_fault (notes_server (clean_repo [commit1, commit0])) 1 ''Hello'' 2
     = (Success, notes_server (clean_repo [commit1, commit0]))"
  by (simp add: eval_defs)

lemma scenario_save_fails:
  "save (fail_at Git_status) (notes_server (clean_repo [commit1, commit0])) 1 ''Draft'' 1
     = (Error500, notes_server dirty_repo)"
  by (simp add: eval_defs)

lemma scenario_rollback:
  "rollback no_fault (notes_server (clean_repo [commit2, commit1, commit0])) 1 2
     = (Success, notes_server (clean_repo [commit3, commit2, commit1, commit0]))"
  by (simp add: eval_defs)

lemma scenario_history:
  "get_history no_fault (notes_server (clean_repo [commit3, commit2, commit1, commit0])) 1
     = History [commit3, commit2, commit1, commit0]"
  by (simp add: eval_defs)

lemma scenario_orphan:
  "save_step no_fault 1 ''Hello'' 1 Sv_doc_query orphan_server
     = (Sv_done Doc_not_found, (notes_server (clean_repo [commit0]))\<lparr>documents := []\<rparr>)"
  by (simp add: eval_defs)

section \<open>Role resolution\<close>

text \<open>
  C10. For the owner of a document \<^verbatim>\<open>getUserDocumentRole\<close> answers \<^verbatim>\<open>owner\<close> whatever
  the permissions table holds for the pair; for any other user it answers what the
  permissions table holds, and \<^verbatim>\<open>null\<close> when it holds nothing.
\<close>

theorem owner_precedence:
  assumes "ok Q_owner" and "map_of (documents s) d = Some doc"
  shows "(owner_id doc = u \<longrightarrow> getUserDocumentRole ok s u d = Some Owner)
       \<and> (owner_id doc \<noteq> u \<and> ok Q_perm \<longrightarrow> getUserDocumentRole ok s u d = permissions s (d, u))
       \<and> (owner_id doc \<noteq> u \<and> permissions s (d, u) = None \<longrightarrow> getUserDocumentRole ok s u d = None)"
  using assms by (simp add: getUserDocumentRole_def)

text \<open>
  The permissions table says reader for the pair of the document and its owner (the
  grant was made before the document was created), and the role is still owner; user 2,
  with neither ownership nor a grant, has no role.
\<close>

theorem owner_precedence_witness:
  "no_fault Q_owner \<and> map_of (documents shared_with_owner) 1 = Some notes_row
   \<and> owner_id notes_row = 1 \<and> permissions shared_with_owner (1, 1) = Some Reader
   \<and> getUserDocumentRole no_fault shared_with_owner 1 1 = Some Owner
   \<and> getUserDocumentRole no_fault shared_with_owner 2 1 = None"
  using owner_precedence [of no_fault shared_with_owner 1 notes_row 1]
    owner_precedence [of no_fault shared_with_owner 1 notes_row 2]
  by (simp add: shared_with_owner_eq notes_server_def notes_row_def no_fault_def)

section \<open>Permission enforcement\<close>

text \<open>
  A save by a requester whose role is reader, or who has no role, is answered Forbidden
  and changes nothing: no file is written, no commit made, no lock taken.
\<close>

lemma save_forbidden:
  "\<not> can_write (getUserDocumentRole ok s u d) \<Longrightarrow> save ok s d c u = (Forbidden, s)"
  by (simp add: save_def)

text \<open>
  C2. The specification asks Forbidden, before any mutation, for a rollback by a reader
  as for a save. The rollback handler has no requester to check: user 3 is a reader of the document and a save in that name
  is refused, while the rollback request, which carries only the hash, is answered
  success, rewrites the file and puts a fourth commit on the log.
\<close>

theorem reader_rollback:
  "getUserDocumentRole no_fault (notes_server (clean_repo [commit2, commit1, commit0])) 3 1 = Some Reader
   \<and> save no_fault (notes_server (clean_repo [commit2, commit1, commit0])) 1 ''Hello'' 3
       = (Forbidden, notes_server (clean_repo [commit2, commit1, commit0]))
   \<and> rollback no_fault (notes_server (clean_repo [commit2, commit1, commit0])) 1 2
       = (Success, notes_server (clean_repo [commit3, commit2, commit1, commit0]))"
proof (intro conjI)
  show "getUserDocumentRole no_fault (notes_server (clean_repo [commit2, commit1, commit0])) 3 1
          = Some Reader"
    by (rule role_reader)
  show "save no_fault (notes_server (clean_repo [commit2, commit1, commit0])) 1 ''Hello'' 3
       = (Forbidden, notes_server (clean_repo [commit2, commit1, commit0]))"
    by (rule save_forbidden) (simp only: role_reader can_write_def, simp)
  show "rollback no_fault (notes_server (clean_repo [commit2, commit1, commit0])) 1 2
       = (Success, notes_server (clean_repo [commit3, commit2, commit1, commit0]))"
    by (rule scenario_rollback)
qed

section \<open>Saving\<close>

lemma save_files_response:
  "save_files ok c r = (resp, r') \<Longrightarrow> resp = Success \<or> resp = Error500"
  by (auto simp: save_files_def split: option.splits if_splits)

lemma save_files_no_op:
  "head_tree r = Some content \<Longrightarrow> r_commits (snd (save_files ok content r)) = r_commits r"
  by (auto simp: save_files_def io_defs repo_add_def repo_commit_def head_tree_def
      split: option.splits if_splits)

text \<open>
  C6. A save whose content is the content of the head commit creates no commit: the log
  of the document, and what the history endpoint answers, are the same after the save as
  before, whatever the response and whatever was staged or on disk.
\<close>

theorem no_op_save:
  assumes "storage s d = Some r" and "head_tree r = Some content"
  shows "doc_commits (snd (save ok s d content u)) d = doc_commits s d
       \<and> get_history ok' (snd (save ok s d content u)) d = get_history ok' s d"
proof -
  have same: "r_commits (snd (save_files ok content r)) = r_commits r"
    using assms(2) by (rule save_files_no_op)
  have log: "git_log ok' (snd (save_files ok content r)) = git_log ok' r"
    using same by (rule git_log_commits)
  show ?thesis
    using assms(1) same log
    by (auto simp: save_def get_history_def Let_def doc_commits_def read_repo_def unlock_def
          lock_def put_repo_def split: option.split prod.split)
qed

text \<open>The writer saves the text of the head commit: success, and the log still has two commits.\<close>

theorem no_op_save_witness:
  "storage (notes_server (clean_repo [commit1, commit0])) 1 = Some (clean_repo [commit1, commit0])
   \<and> head_tree (clean_repo [commit1, commit0]) = Some ''Hello''
   \<and> fst (save no_fault (notes_server (clean_repo [commit1, commit0])) 1 ''Hello'' 2) = Success
   \<and> doc_commits (snd (save no_fault (notes_server (clean_repo [commit1, commit0])) 1 ''Hello'' 2)) 1
        = [commit1, commit0]
   \<and> get_history no_fault (snd (save no_fault (notes_server (clean_repo [commit1, commit0])) 1 ''Hello'' 2)) 1
        = History [commit1, commit0]"
proof -
  have st: "storage (notes_server (clean_repo [commit1, commit0])) 1 = Some (clean_repo [commit1, commit0])"
    by (simp add: notes_server_def)
  have hd: "head_tree (clean_repo [commit1, commit0]) = Some ''Hello''"
    by (simp add: clean_repo_def head_tree_def commit1_def)
  have before: "doc_commits (notes_server (clean_repo [commit1, commit0])) 1 = [commit1, commit0]"
    by (simp add: doc_commits_def notes_server_def clean_repo_def)
  have hist: "get_history no_fault (notes_server (clean_repo [commit1, commit0])) 1
                = History [commit1, commit0]"
    by (simp add: eval_defs)
  have ok: "fst (save no_fault (notes_server (clean_repo [commit1, commit0])) 1 ''Hello'' 2) = Success"
    by (simp only: scenario_save_same fst_conv)
  from no_op_save [OF st hd, of no_fault 2 no_fault] st hd before hist ok
  show ?thesis
    by simp
qed

section \<open>The save lock\<close>

lemma save_not_queued: "d \<notin> gitLocks s \<Longrightarrow> fst (save ok s d c u) \<noteq> Queued"
  by (auto simp: save_def Let_def split: option.split prod.split dest: save_files_response)


lemma save_locks_after:
  "gitLocks (snd (save ok s d c u)) =
     (if fst (save ok s d c u) \<in> {Success, Doc_not_found, Error500}
      then gitLocks s - {d} else gitLocks s)"
  by (auto simp: save_def Let_def unlock_def lock_def put_repo_def split: option.split prod.split
        dest: save_files_response)

lemma save_step_releases:
  "holds_lock pc \<Longrightarrow> fst (save_step ok d c u pc s) = Sv_done resp \<Longrightarrow>
     d \<notin> gitLocks (snd (save_step ok d c u pc s))"
  by (cases pc)
     (auto simp: unlock_def dest!: change_repo_locks split: option.splits if_splits)

text \<open>
  C7. The lock is released on every way out of the save. A save answered success,
  document not found or server error leaves no entry for the document in the lock map;
  a save that found no entry leaves none, so that the next save for the document is not
  answered as coalesced; and, at the level of the steps, whenever a request that holds
  the lock takes the step that answers, whatever other requests did to the state in the
  meantime, the entry is gone after that step.
\<close>

theorem save_releases_lock:
  "(fst (save ok s d c u) \<in> {Success, Doc_not_found, Error500} \<longrightarrow>
       d \<notin> gitLocks (snd (save ok s d c u)))
 \<and> (d \<notin> gitLocks s \<longrightarrow>
       d \<notin> gitLocks (snd (save ok s d c u))
       \<and> fst (save ok' (snd (save ok s d c u)) d c' u') \<noteq> Queued)
 \<and> (holds_lock pc \<and> fst (save_step ok d c u pc s1) = Sv_done resp \<longrightarrow>
       d \<notin> gitLocks (snd (save_step ok d c u pc s1)))"
proof (intro conjI impI)
  assume "fst (save ok s d c u) \<in> {Success, Doc_not_found, Error500}"
  then show "d \<notin> gitLocks (snd (save ok s d c u))"
    by (simp add: save_locks_after)
next
  assume free: "d \<notin> gitLocks s"
  then show after: "d \<notin> gitLocks (snd (save ok s d c u))"
    by (simp add: save_locks_after)
  from after show "fst (save ok' (snd (save ok s d c u)) d c' u') \<noteq> Queued"
    by (rule save_not_queued)
next
  assume "holds_lock pc \<and> fst (save_step ok d c u pc s1) = Sv_done resp"
  then show "d \<notin> gitLocks (snd (save_step ok d c u pc s1))"
    by (simp add: save_step_releases)
qed

text \<open>
  The three ways out: a save that commits, a save whose \<^verbatim>\<open>git status\<close> fails after the
  file was written, and a save that finds the document's row gone after it took the lock.
\<close>

theorem save_releases_lock_witness:
  "fst (save no_fault (notes_server (clean_repo [commit0])) 1 ''Hello'' 1) = Success
   \<and> 1 \<notin> gitLocks (snd (save no_fault (notes_server (clean_repo [commit0])) 1 ''Hello'' 1))
   \<and> fst (save (fail_at Git_status) (notes_server (clean_repo [commit1, commit0])) 1 ''Draft'' 1) = Error500
   \<and> 1 \<notin> gitLocks (snd (save (fail_at Git_status) (notes_server (clean_repo [commit1, commit0])) 1 ''Draft'' 1))
   \<and> 1 \<notin> gitLocks (notes_server (clean_repo [commit0]))
   \<and> fst (save no_fault (snd (save no_fault (notes_server (clean_repo [commit0])) 1 ''Hello'' 1)) 1
             ''Hello World'' 2) \<noteq> Queued
   \<and> holds_lock Sv_doc_query \<and> 1 \<in> gitLocks orphan_server
   \<and> fst (save_step no_fault 1 ''Hello'' 1 Sv_doc_query orphan_server) = Sv_done Doc_not_found
   \<and> 1 \<notin> gitLocks (snd (save_step no_fault 1 ''Hello'' 1 Sv_doc_query orphan_server))"
proof -
  have a: "fst (save no_fault (notes_server (clean_repo [commit0])) 1 ''Hello'' 1) = Success"
    by (simp only: scenario_save_hello fst_conv)
  have b: "fst (save (fail_at Git_status) (notes_server (clean_repo [commit1, commit0])) 1 ''Draft'' 1)
             = Error500"
    by (simp only: scenario_save_fails fst_conv)
  have c: "1 \<notin> gitLocks (notes_server (clean_repo [commit0]))"
    by (simp add: notes_server_def)
  have d: "holds_lock Sv_doc_query" "1 \<in> gitLocks orphan_server"
    by (simp_all add: orphan_server_def)
  have e: "fst (save_step no_fault 1 ''Hello'' 1 Sv_doc_query orphan_server) = Sv_done Doc_not_found"
    by (simp only: scenario_orphan fst_conv)
  from a b c d e
    save_releases_lock [of no_fault "notes_server (clean_repo [commit0])" 1 "''Hello''" 1
      no_fault "''Hello World''" 2 Sv_doc_query orphan_server Doc_not_found]
    save_releases_lock [of "fail_at Git_status" "notes_server (clean_repo [commit1, commit0])" 1
      "''Draft''" 1 no_fault "''Hello''" 1 Sv_doc_query orphan_server Doc_not_found]
  show ?thesis
    by simp
qed

section \<open>Rolling back\<close>

subsection \<open>What holds of every rollback\<close>

text \<open>A rollback never removes a commit, and adds one at most.\<close>

lemma rollback_files_keeps_history:
  "\<exists>new. r_commits (snd (rollback_files ok h r)) = new @ r_commits r \<and> length new \<le> 1"
  by (simp add: rollback_files_def Let_def io_defs repo_add_def repo_commit_def split: option.split)

lemma rollback_files_keeps_history_run:
  "rollback_files ok h r = (resp, r') \<Longrightarrow>
     \<exists>new. r_commits r' = new @ r_commits r \<and> length new \<le> 1"
  using rollback_files_keeps_history [of ok h r] by simp

lemma rollback_keeps_history:
  "\<exists>new. doc_commits (snd (rollback ok s d h)) d = new @ doc_commits s d \<and> length new \<le> 1"
  by (auto simp: rollback_def doc_commits_def put_repo_def split: option.split prod.split
        dest: rollback_files_keeps_history_run)

lemma rollback_files_stages:
  assumes "rollback_files ok h r = (Success, r')"
  shows "\<exists>log cur r1 r2 st fileContent m.
           fileContent = (case git_show_file ok h r of None \<Rightarrow> [] | Some t \<Rightarrow> t)
         \<and> git_log ok r = Some log \<and> fs_read ok r = Some cur
         \<and> fs_write ok fileContent r = Some r1
         \<and> git_add ok r1 = Some r2 \<and> git_status ok r2 = Some st
         \<and> git_commit ok (\<not> (modified st \<or> not_added st \<or> cur \<noteq> fileContent)) m r2 = Some r'"
  using assms by (simp add: rollback_files_def Let_def split: option.splits) blast+

text \<open>
  When the file on disk is what the head commit holds, a successful rollback to a commit
  of the chain puts exactly one commit on top of the log: its content is the target's,
  its parent is the old head, its hash is new, and the file on disk is the target's
  content.
\<close>

lemma rollback_files_appends:
  assumes run: "rollback_files ok h r = (Success, r')" and target: "git_show_file ok h r = Some t"
    and clean: "r_worktree r = head_tree r"
  shows "\<exists>c. r_commits r' = c # r_commits r \<and> c_tree c = Some t \<and> c_parent c = head_hash r
           \<and> c_hash c \<notin> set (map c_hash (r_commits r)) \<and> r_worktree r' = Some t"
proof -
  from rollback_files_stages [OF run] target obtain cur r1 r2 st m where
    rd: "fs_read ok r = Some cur" and wr: "fs_write ok t r = Some r1"
    and ad: "git_add ok r1 = Some r2" and stat: "git_status ok r2 = Some st"
    and co: "git_commit ok (\<not> (modified st \<or> not_added st \<or> cur \<noteq> t)) m r2 = Some r'"
    by auto
  from wr have r1: "r1 = r\<lparr>r_worktree := Some t\<rparr>"
    by (simp add: fs_write_def split: if_splits)
  from ad r1 have r2: "r2 = r\<lparr>r_worktree := Some t, r_index := Some t\<rparr>"
    by (simp add: git_add_def repo_add_def split: if_splits)
  from stat r2 have st: "modified st \<longrightarrow> head_tree r \<noteq> Some t" "\<not> not_added st"
    by (auto simp: git_status_def repo_status_def head_tree_def differs_def split: if_splits)
  from rd clean have cur: "head_tree r = Some t \<Longrightarrow> cur = t"
    by (auto simp: fs_read_def split: option.splits if_splits)
  have forced: "Some t = head_tree r \<Longrightarrow> \<not> (modified st \<or> not_added st \<or> cur \<noteq> t)"
    using st cur by auto
  from co r2 forced have "r' = r2\<lparr>r_commits :=
      \<lparr>c_hash = fresh_hash (r_commits r), c_parent = head_hash r, c_tree = Some t, c_msg = m\<rparr>
        # r_commits r\<rparr>"
    by (auto simp: git_commit_def repo_commit_def head_tree_def head_hash_def split: if_splits)
  with r2 fresh_hash_new [of "r_commits r"] show ?thesis
    by simp
qed

lemma rollback_appends_when_clean:
  assumes "rollback ok s d h = (Success, s')" and "storage s d = Some r"
    and "git_show_file ok h r = Some t" and "r_worktree r = head_tree r"
  shows "\<exists>c. doc_commits s' d = c # doc_commits s d \<and> c_tree c = Some t \<and> c_parent c = head_hash r
           \<and> c_hash c \<notin> set (map c_hash (doc_commits s d)) \<and> doc_file s' d = Some t"
proof -
  from assms(1,2) obtain r' where "rollback_files ok h r = (Success, r')" and "s' = put_repo s d r'"
    by (auto simp: rollback_def split: if_splits option.splits prod.splits)
  with rollback_files_appends [OF _ assms(3,4)] assms(2) show ?thesis
    by (simp add: doc_commits_def doc_file_def put_repo_def)
qed

subsection \<open>Where a successful rollback adds no commit\<close>

text \<open>
  C1. The specification asks for exactly one new head commit after every successful
  rollback, all earlier commits kept. The commits are kept (the lemmas above), but the
  handler forces the commit (\<^verbatim>\<open>--allow-empty\<close>) only when \<^verbatim>\<open>hasChanges\<close> is false, and
  \<^verbatim>\<open>hasChanges\<close> is true as soon as the file on disk differed from the target content.
  Here a save has failed after writing the file, so the disk holds text that was never
  committed; the rollback to the head commit restores the file, finds nothing staged,
  asks for an ordinary commit, is answered success, and the history is the two commits
  it was.
\<close>

theorem rollback_without_commit:
  "save (fail_at Git_status) (notes_server (clean_repo [commit1, commit0])) 1 ''Draft'' 1
       = (Error500, notes_server dirty_repo)
   \<and> get_history no_fault (notes_server dirty_repo) 1 = History [commit1, commit0]
   \<and> rollback no_fault (notes_server dirty_repo) 1 2
       = (Success, notes_server (clean_repo [commit1, commit0]))
   \<and> get_history no_fault (notes_server (clean_repo [commit1, commit0])) 1 = History [commit1, commit0]"
  by (simp add: eval_defs)

subsection \<open>An unknown hash\<close>

text \<open>
  C5. The specification asks for NotFound, and nothing changed, when the hash is not in
  the chain. The handler catches the failure of \<^verbatim>\<open>git show\<close> and goes on with the empty
  string: hash 77 names no commit, the rollback is answered success, the file is emptied
  and a commit of the empty file with the default message is put on the log.
\<close>

theorem rollback_unknown_hash:
  "find_commit (clean_repo [commit2, commit1, commit0]) 77 = None
   \<and> rollback no_fault (notes_server (clean_repo [commit2, commit1, commit0])) 1 77
       = (Success, notes_server (clean_repo [commit_empty, commit2, commit1, commit0]))"
  by (simp add: eval_defs)

section \<open>Creating a document with an empty name\<close>

text \<open>
  C9. The specification asks for an Invalid error and no mutation when a document is
  created with an empty name. As stated this fails twice: the client's handler reports no error for an empty name,
  and the server's handler, given the empty name, answers with the new row, inserts it
  and makes the initial commit.
\<close>

theorem empty_name_counterexample:
  "create_doc_click no_fault server0 [] 1 = (None, server0)
   \<and> fst (create_document no_fault server0 [] 1)
        = Created 1 \<lparr>doc_name = [], fs_path = filename, owner_id = 1\<rparr>
   \<and> documents (snd (create_document no_fault server0 [] 1))
        = [(1, \<lparr>doc_name = [], fs_path = filename, owner_id = 1\<rparr>)]
   \<and> doc_commits (snd (create_document no_fault server0 [] 1)) 1
        = [\<lparr>c_hash = 1, c_parent = None, c_tree = Some [], c_msg = Create_document []\<rparr>]"
  by (simp add: create_doc_click_def create_document_def Let_def op_defs repo_defs scenario_defs)

text \<open>
  C9, amended. Creating a document with an empty name through the client's create
  button does nothing: no request is sent, so no row is inserted, no repository
  initialised and no commit made, and nothing is reported to the user.
\<close>

theorem empty_name_ignored: "create_doc_click ok s [] userId = (None, s)"
  by (simp add: create_doc_click_def)

theorem empty_name_ignored_witness: "create_doc_click no_fault server0 [] 1 = (None, server0)"
  using empty_name_ignored [of no_fault server0 1] .

section \<open>Requests in flight together\<close>

subsection \<open>Two saves\<close>











text \<open>Schedules and step counts compose.\<close>

lemma run_append: "run (xs @ ys) cfg = run ys (run xs cfg)"
proof (induction xs arbitrary: cfg)
  case Nil
  then show ?case by simp
next
  case (Cons i xs)
  then show ?case
    by (cases cfg) (auto split: prod.splits)
qed









subsection \<open>A rollback while a save is in flight\<close>

text \<open>
  C3. The specification asks that a rollback wait for a save in flight on the same
  document, so that their file writes and commits never interleave. The rollback handler
  never looks at \<^verbatim>\<open>gitLocks\<close>. After three steps the writer's save holds the lock, has
  written its text to the file and waits for \<^verbatim>\<open>git status\<close>. The rollback to the initial
  commit then runs from its first step to its answer with the lock held by the save: it
  overwrites the file and commits. The save's last step finds nothing modified and is
  answered success: the text it was sent is neither on disk nor in any commit.
\<close>

theorem rollback_during_save:
  "run [0, 0, 0]
       ([Save_request no_fault 1 ''Hello World'' 2 Sv_owner_query,
         Rollback_request no_fault 1 1 Rb_doc_query],
        notes_server (clean_repo [commit1, commit0]))
     = ([Save_request no_fault 1 ''Hello World'' 2 Sv_status,
         Rollback_request no_fault 1 1 Rb_doc_query],
        lock 1 (notes_server \<lparr>r_worktree = Some ''Hello World'', r_index = Some ''Hello'',
                               r_commits = [commit1, commit0]\<rparr>))
 \<and> run [1, 1, 1, 1, 1, 1, 1]
       ([Save_request no_fault 1 ''Hello World'' 2 Sv_status,
         Rollback_request no_fault 1 1 Rb_doc_query],
        lock 1 (notes_server \<lparr>r_worktree = Some ''Hello World'', r_index = Some ''Hello'',
                               r_commits = [commit1, commit0]\<rparr>))
     = ([Save_request no_fault 1 ''Hello World'' 2 Sv_status,
         Rollback_request no_fault 1 1 (Rb_done Success)],
        lock 1 (notes_server (clean_repo [commit_revert0, commit1, commit0])))
 \<and> run [0]
       ([Save_request no_fault 1 ''Hello World'' 2 Sv_status,
         Rollback_request no_fault 1 1 (Rb_done Success)],
        lock 1 (notes_server (clean_repo [commit_revert0, commit1, commit0])))
     = ([Save_request no_fault 1 ''Hello World'' 2 (Sv_done Success),
         Rollback_request no_fault 1 1 (Rb_done Success)],
        notes_server (clean_repo [commit_revert0, commit1, commit0]))"
  by (simp add: eval_defs)

end
